theory Spec2Isabelle
  imports Complex_Main
begin

section \<open>Focal loss (monai/losses/focal_loss.py)\<close>

text \<open>
  The tensor engine's floating-point numbers are modelled as real numbers, so the
  arithmetic is exact; NaN and infinities are outside the model. The one place where
  exact arithmetic on finite numbers has no value is the mean over an empty voxel
  axis, NaN in the engine and \<open>0 / 0 = 0\<close> here: the theorems about the values of the
  loss are stated for a voxel axis that is not empty.
\<close>

subsection \<open>Elementwise primitives of the tensor engine\<close>

text \<open>\<^verbatim>\<open>x.clamp(min=lo)\<close>\<close>

definition clamp_min :: "real \<Rightarrow> real \<Rightarrow> real" where
  "clamp_min x lo = max x lo"

definition sigmoid :: "real \<Rightarrow> real" where
  "sigmoid x = 1 / (1 + exp (- x))"

text \<open>\<^verbatim>\<open>F.logsigmoid(x)\<close>, the logarithm of the sigmoid.\<close>

definition logsigmoid :: "real \<Rightarrow> real" where
  "logsigmoid x = ln (sigmoid x)"

subsection \<open>The elementwise formulas of \<^verbatim>\<open>FocalLoss.forward\<close>\<close>

text \<open>
  Lines 122-123, for one logit \<open>i\<close> and one label \<open>t\<close>:
  \<^verbatim>\<open>max_val = (-i).clamp(min=0)\<close>,
  \<^verbatim>\<open>ce = i - i * t + max_val + ((-max_val).exp() + (-i - max_val).exp()).log()\<close>.
\<close>

definition bce_with_logits :: "real \<Rightarrow> real \<Rightarrow> real" where
  "bce_with_logits i t =
     (let max_val = clamp_min (- i) 0
      in i - i * t + max_val + ln (exp (- max_val) + exp (- i - max_val)))"

text \<open>
  Lines 149-150, for one element: \<^verbatim>\<open>p = F.logsigmoid(-i * (t * 2.0 - 1.0))\<close> and the
  factor \<^verbatim>\<open>(p * self.gamma).exp()\<close> that multiplies \<open>ce\<close>.
\<close>

definition modulation :: "real \<Rightarrow> real \<Rightarrow> real \<Rightarrow> real" where
  "modulation g i t = (let p = logsigmoid (- i * (t * 2 - 1)) in exp (p * g))"

text \<open>
  The reference definition of the binary cross entropy of the spec:
  \<open>-[t*log(sigmoid(i)) + (1-t)*log(1-sigmoid(i))]\<close>.
\<close>

definition bce_reference :: "real \<Rightarrow> real \<Rightarrow> real" where
  "bce_reference i t = - (t * ln (sigmoid i) + (1 - t) * ln (1 - sigmoid i))"

subsection \<open>Tensors\<close>

text \<open>
  A tensor is its shape and its elements in row-major order. A tensor of the engine
  always has as many elements as its shape says (\<open>well_formed\<close>); a scalar has the
  empty shape and one element.
\<close>

record tensor =
  shape :: "nat list"
  data :: "real list"

definition well_formed :: "tensor \<Rightarrow> bool" where
  "well_formed x \<longleftrightarrow> length (data x) = prod_list (shape x)"

definition scalar :: "real \<Rightarrow> tensor" where
  "scalar x = \<lparr>shape = [], data = [x]\<rparr>"

text \<open>
  The exceptions of \<^verbatim>\<open>forward\<close> and of the constructor. The four \<^verbatim>\<open>ValueError\<close>s of
  \<^verbatim>\<open>forward\<close> are told apart by their message: \<open>ShapeMismatchError\<close> carries the two
  shapes of its message, the target's first. \<open>IndexError\<close>, \<open>UnpackError\<close> and
  \<open>RuntimeError\<close> are what Python and the tensor engine raise on a tensor with too
  few dimensions, on a reshape that cannot infer a dimension and on the minimum of
  an empty tensor. \<open>EnumValueError\<close> is the \<^verbatim>\<open>ValueError\<close> of \<^verbatim>\<open>LossReduction(reduction)\<close>,
  and \<open>OneHotError\<close> stands for any exception of \<^verbatim>\<open>one_hot\<close>.
\<close>

datatype error =
    IndexError
  | UnpackError
  | RuntimeError
  | ShapeMismatchError "nat list" "nat list"
  | WeightLengthError
  | WeightRangeError
  | UnsupportedReductionError string
  | EnumValueError string
  | OneHotError

text \<open>\<^verbatim>\<open>x.shape[k]\<close>\<close>

definition shape_at :: "tensor \<Rightarrow> nat \<Rightarrow> error + nat" where
  "shape_at x k = (if k < length (shape x) then Inr (shape x ! k) else Inl IndexError)"

text \<open>\<open>chunks m k xs\<close>: the first \<open>m\<close> consecutive blocks of \<open>k\<close> elements of \<open>xs\<close>.\<close>

fun chunks :: "nat \<Rightarrow> nat \<Rightarrow> 'a list \<Rightarrow> 'a list list" where
  "chunks 0 k xs = []"
| "chunks (Suc m) k xs = take k xs # chunks m k (drop k xs)"

text \<open>
  \<^verbatim>\<open>x[:, 1:]\<close>: drops channel 0 of every batch entry. Indexing two dimensions of a tensor
  with fewer raises \<^verbatim>\<open>IndexError\<close>.
\<close>

definition drop_channel0 :: "tensor \<Rightarrow> error + tensor" where
  "drop_channel0 x =
     (case shape x of
        b # c # sp \<Rightarrow>
          (let v = prod_list sp
           in Inr \<lparr>shape = b # (c - 1) # sp,
                   data = concat (map (drop v) (chunks b (c * v) (data x)))\<rparr>)
      | _ \<Rightarrow> Inl IndexError)"

text \<open>
  \<^verbatim>\<open>x.reshape(b, n, -1)\<close>, as a list of \<open>b\<close> batch entries, each a list of \<open>n\<close> channels,
  each a list of voxels. The engine cannot infer the last dimension when \<open>b * n = 0\<close>
  and raises \<^verbatim>\<open>RuntimeError\<close>.
\<close>

definition reshape_bn :: "nat \<Rightarrow> nat \<Rightarrow> tensor \<Rightarrow> error + real list list list" where
  "reshape_bn b n x =
     (if b * n = 0 then Inl RuntimeError
      else (let v = length (data x) div (b * n)
            in Inr (map (chunks n v) (chunks b (n * v) (data x)))))"

text \<open>An elementwise binary operation on two \<open>[B, N, V]\<close> tensors of the same shape.\<close>

definition ew2 ::
  "(real \<Rightarrow> real \<Rightarrow> real) \<Rightarrow> real list list list \<Rightarrow> real list list list \<Rightarrow> real list list list"
where
  "ew2 f xs ys = map2 (map2 (map2 f)) xs ys"

text \<open>\<^verbatim>\<open>torch.mean(x, dim=-1)\<close> on one row of voxels.\<close>

definition mean_list :: "real list \<Rightarrow> real" where
  "mean_list xs = sum_list xs / real (length xs)"

subsection \<open>The configuration and the constructor\<close>

text \<open>
  Modelled from the spec: the enumeration \<^verbatim>\<open>monai.utils.LossReduction\<close>, which is not
  among the sources. The spec gives the reduction modes \<open>{none, mean, sum}\<close>;
  \<^verbatim>\<open>forward\<close> reads their values as \<^verbatim>\<open>LossReduction.SUM.value\<close>, \<^verbatim>\<open>LossReduction.NONE.value\<close>
  and \<^verbatim>\<open>LossReduction.MEAN.value\<close>, and names them "mean", "sum", "none" in its
  message. Calling a Python enumeration on a member returns the member, on the
  value of a member returns that member, and on anything else raises \<^verbatim>\<open>ValueError\<close>.
\<close>

datatype LossReduction = R_MEAN | R_SUM | R_NONE

fun LossReduction_value :: "LossReduction \<Rightarrow> string" where
  "LossReduction_value R_MEAN = ''mean''"
| "LossReduction_value R_SUM = ''sum''"
| "LossReduction_value R_NONE = ''none''"

text \<open>The constructor's argument \<^verbatim>\<open>reduction: Union[LossReduction, str]\<close>.\<close>

datatype reduction_arg = Member LossReduction | Str string

fun LossReduction_call :: "reduction_arg \<Rightarrow> error + LossReduction" where
  "LossReduction_call (Member m) = Inr m"
| "LossReduction_call (Str s) =
     (if s = LossReduction_value R_MEAN then Inr R_MEAN
      else if s = LossReduction_value R_SUM then Inr R_SUM
      else if s = LossReduction_value R_NONE then Inr R_NONE
      else Inl (EnumValueError s))"

text \<open>The argument \<^verbatim>\<open>weight\<close>: one number, or a sequence of numbers.\<close>

datatype weight_arg = Scalar real | Sequence "real list"

record FocalLoss =
  include_background :: bool
  to_onehot_y :: bool
  gamma :: real
  weight :: "weight_arg option"
  reduction :: string

text \<open>
  \<^verbatim>\<open>FocalLoss.__init__\<close> (lines 70-74). The base class stores the string it is given as
  \<^verbatim>\<open>self.reduction\<close>.
\<close>

definition init ::
  "bool \<Rightarrow> bool \<Rightarrow> real \<Rightarrow> weight_arg option \<Rightarrow> reduction_arg \<Rightarrow> error + FocalLoss"
where
  "init include_background' to_onehot_y' gamma' weight' reduction' =
     (case LossReduction_call reduction' of
        Inl e \<Rightarrow> Inl e
      | Inr m \<Rightarrow>
          Inr \<lparr>include_background = include_background', to_onehot_y = to_onehot_y',
               gamma = gamma', weight = weight', reduction = LossReduction_value m\<rparr>)"

subsection \<open>\<^verbatim>\<open>FocalLoss.forward\<close>\<close>

text \<open>
  \<^verbatim>\<open>monai.networks.one_hot\<close> is not among the sources: \<^verbatim>\<open>forward\<close> takes it as the
  parameter \<open>one_hot\<close>, a function of the target and the number of classes that
  returns a tensor, or \<open>None\<close> when it raises. A call of \<^verbatim>\<open>forward\<close> returns the warnings
  it has emitted, in order, and either the exception it raises or the loss.
\<close>

definition warn_to_onehot_y :: string where
  "warn_to_onehot_y = ''single channel prediction, `to_onehot_y=True` ignored.''"

definition warn_include_background :: string where
  "warn_include_background = ''single channel prediction, `include_background=False` ignored.''"

text \<open>Lines 95-99.\<close>

definition to_onehot_step ::
  "(tensor \<Rightarrow> nat \<Rightarrow> tensor option) \<Rightarrow> FocalLoss \<Rightarrow> nat \<Rightarrow> tensor
     \<Rightarrow> string list \<times> (error + tensor)"
where
  "to_onehot_step one_hot self n_pred_ch target =
     (if to_onehot_y self then
        (if n_pred_ch = 1 then ([warn_to_onehot_y], Inr target)
         else ([],
           case one_hot target n_pred_ch of
             None \<Rightarrow> Inl OneHotError
           | Some target' \<Rightarrow> Inr target'))
      else ([], Inr target))"

text \<open>Lines 101-107: the target is sliced first, then the input.\<close>

definition include_background_step ::
  "FocalLoss \<Rightarrow> nat \<Rightarrow> tensor \<Rightarrow> tensor \<Rightarrow> string list \<times> (error + tensor \<times> tensor)"
where
  "include_background_step self n_pred_ch input target =
     (if \<not> include_background self then
        (if n_pred_ch = 1 then ([warn_include_background], Inr (input, target))
         else ([],
           case drop_channel0 target of
             Inl e \<Rightarrow> Inl e
           | Inr target' \<Rightarrow>
               (case drop_channel0 input of
                  Inl e \<Rightarrow> Inl e
                | Inr input' \<Rightarrow> Inr (input', target'))))
      else ([], Inr (input, target)))"

text \<open>Lines 93-107: the preprocessing, which returns the input and the target to score.\<close>

definition preprocess ::
  "(tensor \<Rightarrow> nat \<Rightarrow> tensor option) \<Rightarrow> FocalLoss \<Rightarrow> tensor \<Rightarrow> tensor
     \<Rightarrow> string list \<times> (error + tensor \<times> tensor)"
where
  "preprocess one_hot self input target =
     (case shape_at input 1 of
        Inl e \<Rightarrow> ([], Inl e)
      | Inr n_pred_ch \<Rightarrow>
          (case to_onehot_step one_hot self n_pred_ch target of
             (w1, Inl e) \<Rightarrow> (w1, Inl e)
           | (w1, Inr target1) \<Rightarrow>
               (case include_background_step self n_pred_ch input target1 of
                  (w2, r) \<Rightarrow> (w1 @ w2, r))))"

text \<open>
  Lines 127-138: the class weights as a tensor of \<open>n\<close> numbers. The minimum of an
  empty tensor raises \<^verbatim>\<open>RuntimeError\<close>.
\<close>

definition class_weight_of :: "weight_arg \<Rightarrow> nat \<Rightarrow> error + real list" where
  "class_weight_of w n =
     (case (case w of
              Scalar x \<Rightarrow> Inr (replicate n x)
            | Sequence ws \<Rightarrow> if length ws \<noteq> n then Inl WeightLengthError else Inr ws) of
        Inl e \<Rightarrow> Inl e
      | Inr class_weight \<Rightarrow>
          if class_weight = [] then Inl RuntimeError
          else if min_list class_weight < 0 then Inl WeightRangeError
          else Inr class_weight)"

text \<open>
  Lines 142-145: \<^verbatim>\<open>ce * at\<close>, where \<^verbatim>\<open>at\<close> is the class weights expanded over the batch
  and the voxels.
\<close>

definition mul_class_weight :: "real list list list \<Rightarrow> real list \<Rightarrow> real list list list" where
  "mul_class_weight ce class_weight =
     map (\<lambda>channels. map2 (\<lambda>voxels w. map (\<lambda>c. c * w) voxels) channels class_weight) ce"

text \<open>Lines 125-145.\<close>

definition apply_weight ::
  "weight_arg option \<Rightarrow> nat \<Rightarrow> real list list list \<Rightarrow> error + real list list list"
where
  "apply_weight wo n ce =
     (case wo of
        None \<Rightarrow> Inr ce
      | Some w \<Rightarrow>
          (case class_weight_of w n of
             Inl e \<Rightarrow> Inl e
           | Inr class_weight \<Rightarrow> Inr (mul_class_weight ce class_weight)))"

text \<open>Lines 149-150: the \<open>[B, N]\<close> tensor of the means over the voxels.\<close>

definition voxel_mean_loss ::
  "real \<Rightarrow> real list list list \<Rightarrow> real list list list \<Rightarrow> real list list list \<Rightarrow> real list list"
where
  "voxel_mean_loss g i t ce = map (map mean_list) (ew2 (*) (ew2 (modulation g) i t) ce)"

text \<open>The rows of a \<open>[b, n]\<close> tensor as a tensor.\<close>

definition tensor_bn :: "nat \<Rightarrow> nat \<Rightarrow> real list list \<Rightarrow> tensor" where
  "tensor_bn b n rows = \<lparr>shape = [b, n], data = concat rows\<rparr>"

text \<open>
  Lines 152-158 on the tensor \<^verbatim>\<open>loss\<close>: \<^verbatim>\<open>loss.sum()\<close> and \<^verbatim>\<open>loss.mean()\<close> are scalars, the
  mean being the sum divided by the number of elements.
\<close>

definition reduce :: "string \<Rightarrow> tensor \<Rightarrow> error + tensor" where
  "reduce r loss =
     (if r = LossReduction_value R_SUM then Inr (scalar (sum_list (data loss)))
      else if r = LossReduction_value R_NONE then Inr loss
      else if r = LossReduction_value R_MEAN then
        Inr (scalar (sum_list (data loss) / real (length (data loss))))
      else Inl (UnsupportedReductionError r))"

text \<open>Lines 109-158, on the preprocessed input and target.\<close>

definition compute_loss :: "FocalLoss \<Rightarrow> tensor \<Rightarrow> tensor \<Rightarrow> error + tensor" where
  "compute_loss self input target =
     (if shape target \<noteq> shape input then
        Inl (ShapeMismatchError (shape target) (shape input))
      else
        (case shape target of
           b # n # sp \<Rightarrow>
             (case reshape_bn b n input of
                Inl e \<Rightarrow> Inl e
              | Inr i \<Rightarrow>
                  (case reshape_bn b n target of
                     Inl e \<Rightarrow> Inl e
                   | Inr t \<Rightarrow>
                       (case apply_weight (weight self) n (ew2 bce_with_logits i t) of
                          Inl e \<Rightarrow> Inl e
                        | Inr ce \<Rightarrow>
                            reduce (reduction self)
                              (tensor_bn b n (voxel_mean_loss (gamma self) i t ce)))))
         | _ \<Rightarrow> Inl UnpackError))"

definition forward ::
  "(tensor \<Rightarrow> nat \<Rightarrow> tensor option) \<Rightarrow> FocalLoss \<Rightarrow> tensor \<Rightarrow> tensor
     \<Rightarrow> string list \<times> (error + tensor)"
where
  "forward one_hot self input target =
     (case preprocess one_hot self input target of
        (ws, Inl e) \<Rightarrow> (ws, Inl e)
      | (ws, Inr (input', target')) \<Rightarrow> (ws, compute_loss self input' target'))"

subsection \<open>The loss in closed form\<close>

text \<open>
  What the theorems say \<^verbatim>\<open>forward\<close> computes, on the elements of the input and the target
  in row-major order. \<open>voxel_row v x k\<close> is the row of the \<open>v\<close> voxels of the \<open>k\<close>-th
  pair of a batch entry and a channel of \<open>x\<close>.
\<close>

definition voxel_row :: "nat \<Rightarrow> tensor \<Rightarrow> nat \<Rightarrow> real list" where
  "voxel_row v x k = take v (drop (k * v) (data x))"

text \<open>The weight of class \<open>c\<close>; no weight is the weight 1.\<close>

definition class_weight_at :: "weight_arg option \<Rightarrow> nat \<Rightarrow> real" where
  "class_weight_at wo c =
     (case wo of None \<Rightarrow> 1 | Some (Scalar x) \<Rightarrow> x | Some (Sequence ws) \<Rightarrow> ws ! c)"

text \<open>
  The weights \<^verbatim>\<open>forward\<close> accepts for \<open>n\<close> classes: a sequence has \<open>n\<close> elements, and no
  weight is negative.
\<close>

definition weight_valid :: "weight_arg option \<Rightarrow> nat \<Rightarrow> bool" where
  "weight_valid wo n =
     (case wo of
        None \<Rightarrow> True
      | Some (Scalar x) \<Rightarrow> 0 \<le> x
      | Some (Sequence ws) \<Rightarrow> length ws = n \<and> list_all (\<lambda>w. 0 \<le> w) ws)"

text \<open>
  The mean over a row of voxels of the modulated, weighted cross entropy, and the
  \<open>b * n\<close> elements of the \<open>[b, n]\<close> loss tensor.
\<close>

definition channel_loss :: "real \<Rightarrow> real \<Rightarrow> real list \<Rightarrow> real list \<Rightarrow> real" where
  "channel_loss g w is ts =
     mean_list (map2 (\<lambda>i t. modulation g i t * (bce_with_logits i t * w)) is ts)"

definition loss_bn :: "FocalLoss \<Rightarrow> nat \<Rightarrow> nat \<Rightarrow> nat \<Rightarrow> tensor \<Rightarrow> tensor \<Rightarrow> real list" where
  "loss_bn self b n v input target =
     map (\<lambda>k. channel_loss (gamma self) (class_weight_at (weight self) (k mod n))
                (voxel_row v input k) (voxel_row v target k))
       [0..<b * n]"

text \<open>A list of \<open>b\<close> lists of \<open>n\<close> elements each.\<close>

definition has_dims :: "nat \<Rightarrow> nat \<Rightarrow> 'a list list \<Rightarrow> bool" where
  "has_dims b n X \<longleftrightarrow> length X = b \<and> list_all (\<lambda>xs. length xs = n) X"

subsection \<open>Example inputs\<close>

text \<open>
  The configuration of the constructor's defaults; a single-channel input and
  target of shape \<open>[1, 1, 2]\<close>; a two-channel input and target of shape \<open>[1, 2, 1]\<close>;
  the prediction and the ground truth of the constructor's documentation, of shapes
  \<open>[3, 2]\<close> and \<open>[3, 1]\<close>; and a \<^verbatim>\<open>one_hot\<close> that raises whenever it is called, for calls
  of \<^verbatim>\<open>forward\<close> that do not reach it.
\<close>

definition example_loss :: FocalLoss where
  "example_loss =
     \<lparr>include_background = True, to_onehot_y = False, gamma = 2, weight = None,
      reduction = ''mean''\<rparr>"

definition example_input :: tensor where
  "example_input = \<lparr>shape = [1, 1, 2], data = [0, 0]\<rparr>"

definition example_target :: tensor where
  "example_target = \<lparr>shape = [1, 1, 2], data = [1, 0]\<rparr>"

definition example_input2 :: tensor where
  "example_input2 = \<lparr>shape = [1, 2, 1], data = [0, 0]\<rparr>"

definition example_target2 :: tensor where
  "example_target2 = \<lparr>shape = [1, 2, 1], data = [1, 0]\<rparr>"

definition example_pred :: tensor where
  "example_pred = \<lparr>shape = [3, 2], data = [1, 0, 0, 1, 1, 0]\<rparr>"

definition example_grnd :: tensor where
  "example_grnd = \<lparr>shape = [3, 1], data = [0, 1, 0]\<rparr>"

definition no_one_hot :: "tensor \<Rightarrow> nat \<Rightarrow> tensor option" where
  "no_one_hot labels num_classes = None"

section \<open>Properties of the elementwise formulas\<close>



lemma ln_sigmoid: "ln (sigmoid x) = - ln (1 + exp (- x))"
proof -
  have "0 < 1 + exp (- x)" by (simp add: add_pos_pos)
  then show ?thesis by (simp add: sigmoid_def ln_div)
qed

lemma one_minus_sigmoid: "1 - sigmoid x = exp (- x) / (1 + exp (- x))"
proof -
  have "1 + exp (- x) \<noteq> 0" using exp_gt_zero [of "- x"] by linarith
  then show ?thesis by (simp add: sigmoid_def field_simps)
qed

lemma ln_one_minus_sigmoid: "ln (1 - sigmoid x) = - x - ln (1 + exp (- x))"
proof -
  have "0 < 1 + exp (- x)" by (simp add: add_pos_pos)
  then show ?thesis by (simp add: one_minus_sigmoid ln_div)
qed

lemma softplus_flip: "ln (1 + exp (- x)) = - x + ln (1 + exp (x::real))"
proof -
  have "exp (- x) * exp x = 1"
    by (simp flip: exp_add)
  then have "1 + exp (- x) = exp (- x) * (1 + exp x)"
    by (simp add: distrib_left)
  moreover have "0 < 1 + exp x" by (simp add: add_pos_pos)
  ultimately show ?thesis by (simp add: ln_mult)
qed

lemma bce_stable_eq_reference: "bce_with_logits i t = bce_reference i t"
proof -
  have ref: "bce_reference i t = i - i * t + ln (1 + exp (- i))"
    by (simp add: bce_reference_def ln_sigmoid ln_one_minus_sigmoid algebra_simps)
  show ?thesis
  proof (cases "0 \<le> i")
    case True
    then have "bce_with_logits i t = i - i * t + ln (1 + exp (- i))"
      by (simp add: bce_with_logits_def clamp_min_def max_def)
    with ref show ?thesis by simp
  next
    case False
    then have "bce_with_logits i t = i - i * t - i + ln (exp i + 1)"
      by (simp add: bce_with_logits_def clamp_min_def max_def)
    also have "\<dots> = i - i * t + ln (1 + exp (- i))"
      by (simp add: softplus_flip [of i] add.commute)
    finally show ?thesis using ref by simp
  qed
qed





text \<open>
  Why the formula of lines 122-123 is stable: both exponentials have an argument that
  is not positive, and the logarithm is taken of a number between 1 and 2.
\<close>

lemma bce_stable_arguments:
  "- clamp_min (- i) 0 \<le> 0 \<and> - i - clamp_min (- i) 0 \<le> 0
    \<and> 1 \<le> exp (- clamp_min (- i) 0) + exp (- i - clamp_min (- i) 0)
    \<and> exp (- clamp_min (- i) 0) + exp (- i - clamp_min (- i) 0) \<le> 2"
proof (cases "0 \<le> i")
  case True
  then show ?thesis by (simp add: clamp_min_def max_def)
next
  case False
  then show ?thesis by (simp add: clamp_min_def max_def)
qed

section \<open>Properties of the tensor operations\<close>

lemma length_chunks: "length (chunks m k xs) = m"
  by (induction m arbitrary: xs) simp_all

lemma nth_chunks: "j < m \<Longrightarrow> chunks m k xs ! j = take k (drop (j * k) xs)"
proof (induction m arbitrary: xs j)
  case 0
  then show ?case by simp
next
  case (Suc m)
  show ?case
  proof (cases j)
    case 0
    then show ?thesis by simp
  next
    case (Suc j')
    with Suc.prems have "j' < m" by simp
    with Suc.IH [of j' "drop k xs"] Suc show ?thesis by (simp add: add.commute)
  qed
qed

lemma length_concat_uniform:
  "\<forall>xs \<in> set xss. length xs = n \<Longrightarrow> length (concat xss) = length xss * n"
  by (induction xss) simp_all

lemma nth_concat_uniform:
  "\<forall>xs \<in> set xss. length xs = n \<Longrightarrow> i < length xss \<Longrightarrow> j < n
    \<Longrightarrow> concat xss ! (i * n + j) = xss ! i ! j"
proof (induction xss arbitrary: i)
  case Nil
  then show ?case by simp
next
  case (Cons xs xss)
  show ?case
  proof (cases i)
    case 0
    with Cons.prems show ?thesis by (simp add: nth_append)
  next
    case (Suc i')
    with Cons.prems have "concat xss ! (i' * n + j) = xss ! i' ! j"
      using Cons.IH [of i'] by simp
    with Suc Cons.prems show ?thesis by (simp add: nth_append)
  qed
qed

lemma min_list_neg_iff:
  "xs \<noteq> [] \<Longrightarrow> min_list xs < (0::real) \<longleftrightarrow> (\<exists>x \<in> set xs. x < 0)"
  by (simp add: min_list_Min Min_less_iff)




lemma take_drop_block:
  assumes "ni < n"
  shows "take v (drop (ni * v) (take (n * v) ys)) = take v (drop (ni * v) ys)"
proof -
  from assms have "Suc ni \<le> n" by simp
  then have "Suc ni * v \<le> n * v" by (rule mult_le_mono1)
  then have "v \<le> n * v - ni * v" by simp
  then show ?thesis by (simp add: drop_take min_absorb1)
qed

lemma reshape_bn_rows:
  assumes "0 < b * n" and "length (data x) = b * n * v"
  shows "\<exists>R. reshape_bn b n x = Inr R \<and> length R = b
    \<and> (\<forall>bi<b. length (R ! bi) = n
          \<and> (\<forall>ni<n. R ! bi ! ni = voxel_row v x (bi * n + ni)))"
proof -
  let ?R = "map (chunks n v) (chunks b (n * v) (data x))"
  from assms have v: "length (data x) div (b * n) = v" by simp
  with assms(1) have r: "reshape_bn b n x = Inr ?R"
    by (simp add: reshape_bn_def Let_def)
  have "?R ! bi ! ni = voxel_row v x (bi * n + ni)" if "bi < b" "ni < n" for bi ni
  proof -
    have "?R ! bi ! ni = take v (drop (ni * v) (take (n * v) (drop (bi * (n * v)) (data x))))"
      using that by (simp add: length_chunks nth_chunks)
    also have "\<dots> = take v (drop (ni * v) (drop (bi * (n * v)) (data x)))"
      using that(2) by (rule take_drop_block)
    also have "\<dots> = voxel_row v x (bi * n + ni)"
      by (simp add: voxel_row_def algebra_simps)
    finally show ?thesis .
  qed
  then show ?thesis using r by (simp add: length_chunks nth_chunks)
qed

lemma length_voxel_row:
  "length (data x) = m * v \<Longrightarrow> k < m \<Longrightarrow> length (voxel_row v x k) = v"
proof -
  assume a: "length (data x) = m * v" "k < m"
  then have "Suc k * v \<le> m * v" by (intro mult_le_mono1) simp
  then have "v \<le> m * v - k * v" by simp
  with a show ?thesis by (simp add: voxel_row_def)
qed




lemma has_dims_ew2:
  "has_dims b n X \<Longrightarrow> has_dims b n Y \<Longrightarrow> has_dims b n (ew2 f X Y)"
  by (simp add: has_dims_def list_all_length ew2_def)

lemma nth_ew2:
  "has_dims b n X \<Longrightarrow> has_dims b n Y \<Longrightarrow> bi < b \<Longrightarrow> ni < n
    \<Longrightarrow> ew2 f X Y ! bi ! ni = map2 f (X ! bi ! ni) (Y ! bi ! ni)"
  by (simp add: has_dims_def list_all_length ew2_def)

lemma has_dims_mul_class_weight:
  "has_dims b n ce \<Longrightarrow> length cw = n \<Longrightarrow> has_dims b n (mul_class_weight ce cw)"
  by (simp add: has_dims_def list_all_length mul_class_weight_def)

lemma nth_mul_class_weight:
  "has_dims b n ce \<Longrightarrow> length cw = n \<Longrightarrow> bi < b \<Longrightarrow> ni < n
    \<Longrightarrow> mul_class_weight ce cw ! bi ! ni = map (\<lambda>c. c * cw ! ni) (ce ! bi ! ni)"
  by (simp add: has_dims_def list_all_length mul_class_weight_def)

lemma has_dims_voxel_mean_loss:
  "has_dims b n i \<Longrightarrow> has_dims b n t \<Longrightarrow> has_dims b n ce
    \<Longrightarrow> has_dims b n (voxel_mean_loss g i t ce)"
  by (simp add: has_dims_def list_all_length voxel_mean_loss_def ew2_def)

lemma nth_voxel_mean_loss:
  "has_dims b n i \<Longrightarrow> has_dims b n t \<Longrightarrow> has_dims b n ce \<Longrightarrow> bi < b \<Longrightarrow> ni < n
    \<Longrightarrow> voxel_mean_loss g i t ce ! bi ! ni =
        mean_list (map2 (*) (map2 (modulation g) (i ! bi ! ni) (t ! bi ! ni)) (ce ! bi ! ni))"
  by (simp add: has_dims_def list_all_length voxel_mean_loss_def ew2_def)

lemma concat_has_dims:
  assumes "has_dims b n X"
  shows "concat X = map (\<lambda>k. X ! (k div n) ! (k mod n)) [0..<b * n]"
proof (rule nth_equalityI)
  from assms have u: "\<forall>xs \<in> set X. length xs = n" and l: "length X = b"
    by (simp_all add: has_dims_def list_all_iff)
  show "length (concat X) = length (map (\<lambda>k. X ! (k div n) ! (k mod n)) [0..<b * n])"
    using length_concat_uniform [OF u] l by simp
  fix k assume "k < length (concat X)"
  then have k: "k < b * n" using length_concat_uniform [OF u] l by simp
  then have n: "0 < n" by (cases n) simp_all
  from k have d: "k div n < b" by (simp add: less_mult_imp_div_less)
  have "concat X ! (k div n * n + k mod n) = X ! (k div n) ! (k mod n)"
    using u d l n by (intro nth_concat_uniform) simp_all
  then show "concat X ! k = map (\<lambda>k. X ! (k div n) ! (k mod n)) [0..<b * n] ! k"
    using k by simp
qed

lemma class_weight_of_valid:
  assumes "weight_valid (Some w) n" and "0 < n"
  shows "\<exists>cw. class_weight_of w n = Inr cw \<and> length cw = n
    \<and> (\<forall>c<n. cw ! c = class_weight_at (Some w) c)"
proof (cases w)
  case (Scalar x)
  with assms have "0 \<le> x" by (simp add: weight_valid_def)
  then have "\<not> min_list (replicate n x) < 0"
    using assms(2) by (simp add: min_list_neg_iff)
  with Scalar assms(2) show ?thesis
    by (simp add: class_weight_of_def class_weight_at_def)
next
  case (Sequence ws)
  with assms have l: "length ws = n" and p: "\<forall>x \<in> set ws. 0 \<le> x"
    by (simp_all add: weight_valid_def list_all_iff)
  with assms(2) have ne: "ws \<noteq> []" by auto
  with p have "\<not> min_list ws < 0" by (auto simp: min_list_neg_iff)
  with Sequence l ne show ?thesis
    by (simp add: class_weight_of_def class_weight_at_def)
qed



lemma map2_mul_fuse:
  "map2 (*) (map2 f xs ys) (map h (map2 g xs ys)) = map2 (\<lambda>x y. f x y * h (g x y)) xs ys"
  by (induction xs ys rule: list_induct2') simp_all

lemma apply_weight_valid:
  assumes "weight_valid wo n" and "0 < n" and "has_dims b n ce"
  shows "\<exists>ce'. apply_weight wo n ce = Inr ce' \<and> has_dims b n ce'
    \<and> (\<forall>bi<b. \<forall>ni<n. ce' ! bi ! ni = map (\<lambda>c. c * class_weight_at wo ni) (ce ! bi ! ni))"
proof (cases wo)
  case None
  with assms(3) show ?thesis by (simp add: apply_weight_def class_weight_at_def)
next
  case (Some w)
  with assms obtain cw where cw: "class_weight_of w n = Inr cw" "length cw = n"
    "\<forall>c<n. cw ! c = class_weight_at (Some w) c"
    using class_weight_of_valid [of w n] by blast
  with Some assms(3) show ?thesis
    by (simp add: apply_weight_def has_dims_mul_class_weight nth_mul_class_weight)
qed

lemma compute_loss_scored:
  assumes s: "shape target = shape input" "shape input = b # n # sp"
    and wf: "well_formed input" "well_formed target"
    and pos: "0 < b * n"
    and w: "weight_valid (weight self) n"
  shows "compute_loss self input target =
    reduce (reduction self) \<lparr>shape = [b, n], data = loss_bn self b n (prod_list sp) input target\<rparr>"
proof -
  let ?v = "prod_list sp"
  from pos have n: "0 < n" by simp
  from s wf have li: "length (data input) = b * n * ?v" and lt: "length (data target) = b * n * ?v"
    by (simp_all add: well_formed_def)
  from reshape_bn_rows [OF pos li] obtain I where I: "reshape_bn b n input = Inr I"
    "length I = b" "\<forall>bi<b. length (I ! bi) = n \<and> (\<forall>ni<n. I ! bi ! ni = voxel_row ?v input (bi * n + ni))"
    by blast
  from reshape_bn_rows [OF pos lt] obtain T where T: "reshape_bn b n target = Inr T"
    "length T = b" "\<forall>bi<b. length (T ! bi) = n \<and> (\<forall>ni<n. T ! bi ! ni = voxel_row ?v target (bi * n + ni))"
    by blast
  from I T have dI: "has_dims b n I" and dT: "has_dims b n T"
    by (simp_all add: has_dims_def list_all_length)
  let ?ce0 = "ew2 bce_with_logits I T"
  from dI dT have d0: "has_dims b n ?ce0" by (rule has_dims_ew2)
  from apply_weight_valid [OF w n d0] obtain ce where ce:
    "apply_weight (weight self) n ?ce0 = Inr ce" "has_dims b n ce"
    "\<forall>bi<b. \<forall>ni<n. ce ! bi ! ni = map (\<lambda>c. c * class_weight_at (weight self) ni) (?ce0 ! bi ! ni)"
    by blast
  let ?LL = "voxel_mean_loss (gamma self) I T ce"
  have dL: "has_dims b n ?LL" using dI dT ce(2) by (rule has_dims_voxel_mean_loss)
  have c: "compute_loss self input target = reduce (reduction self) (tensor_bn b n ?LL)"
    using s I(1) T(1) ce(1) by (simp add: compute_loss_def)
  have "?LL ! (k div n) ! (k mod n) =
      channel_loss (gamma self) (class_weight_at (weight self) (k mod n))
        (voxel_row ?v input k) (voxel_row ?v target k)" if k: "k < b * n" for k
  proof -
    from k have bi: "k div n < b" by (simp add: less_mult_imp_div_less)
    from n have ni: "k mod n < n" by simp
    have ri: "I ! (k div n) ! (k mod n) = voxel_row ?v input k"
      using I(3) bi ni by simp
    have rt: "T ! (k div n) ! (k mod n) = voxel_row ?v target k"
      using T(3) bi ni by simp
    have e: "ce ! (k div n) ! (k mod n) =
        map (\<lambda>c. c * class_weight_at (weight self) (k mod n))
          (map2 bce_with_logits (voxel_row ?v input k) (voxel_row ?v target k))"
      using ce(3) bi ni nth_ew2 [OF dI dT bi ni, of bce_with_logits] ri rt by simp
    have "?LL ! (k div n) ! (k mod n) =
        mean_list (map2 (*)
          (map2 (modulation (gamma self)) (voxel_row ?v input k) (voxel_row ?v target k))
          (ce ! (k div n) ! (k mod n)))"
      using nth_voxel_mean_loss [OF dI dT ce(2) bi ni, of "gamma self"] ri rt by simp
    then show ?thesis
      by (simp only: e map2_mul_fuse channel_loss_def)
  qed
  then have "concat ?LL = loss_bn self b n ?v input target"
    by (simp add: concat_has_dims [OF dL] loss_bn_def)
  with c show ?thesis by (simp add: tensor_bn_def)
qed

text \<open>Dropping channel 0 of a well-formed tensor gives a well-formed tensor.\<close>

lemma chunks_uniform:
  "length xs = m * k \<Longrightarrow> \<forall>ys \<in> set (chunks m k xs). length ys = k"
proof (induction m arbitrary: xs)
  case 0
  then show ?case by simp
next
  case (Suc m)
  from Suc.prems have "length (drop k xs) = m * k" by simp
  from Suc.IH [OF this] Suc.prems show ?case by simp
qed

lemma drop_channel0_well_formed:
  assumes "well_formed x" and "drop_channel0 x = Inr y"
  shows "well_formed y"
proof -
  from assms(2) obtain b c sp where s: "shape x = b # c # sp"
    by (auto simp: drop_channel0_def split: list.splits)
  let ?v = "prod_list sp"
  from assms(2) s have y: "y = \<lparr>shape = b # (c - 1) # sp,
      data = concat (map (drop ?v) (chunks b (c * ?v) (data x)))\<rparr>"
    by (auto simp: drop_channel0_def Let_def)
  from assms(1) s have "length (data x) = b * (c * ?v)" by (simp add: well_formed_def)
  then have "\<forall>ys \<in> set (chunks b (c * ?v) (data x)). length ys = c * ?v"
    by (rule chunks_uniform)
  then have "\<forall>zs \<in> set (map (drop ?v) (chunks b (c * ?v) (data x))). length zs = (c - 1) * ?v"
    by (simp add: diff_mult_distrib)
  from length_concat_uniform [OF this]
  have "length (concat (map (drop ?v) (chunks b (c * ?v) (data x)))) = b * ((c - 1) * ?v)"
    by (simp add: length_chunks)
  with y show ?thesis by (simp add: well_formed_def)
qed

section \<open>Properties of \<^verbatim>\<open>forward\<close>\<close>

lemma preprocess_cong:
  "include_background s1 = include_background s2 \<Longrightarrow> to_onehot_y s1 = to_onehot_y s2
    \<Longrightarrow> preprocess one_hot s1 input target = preprocess one_hot s2 input target"
proof -
  assume ib: "include_background s1 = include_background s2"
    and oh: "to_onehot_y s1 = to_onehot_y s2"
  have a: "to_onehot_step one_hot s1 = to_onehot_step one_hot s2"
    using oh by (intro ext) (simp add: to_onehot_step_def)
  have b: "include_background_step s1 = include_background_step s2"
    using ib by (intro ext) (simp add: include_background_step_def)
  show ?thesis unfolding preprocess_def a b by (rule refl)
qed

lemma forward_scored:
  assumes "preprocess one_hot self input target = (ws, Inr (i, t))"
  shows "forward one_hot self input target = (ws, compute_loss self i t)"
  using assms by (simp add: forward_def)

lemma compute_loss_reductions:
  assumes "compute_loss (self\<lparr>reduction := ''none''\<rparr>) i t = Inr L"
  shows "compute_loss (self\<lparr>reduction := ''sum''\<rparr>) i t = Inr (scalar (sum_list (data L)))"
    and "compute_loss (self\<lparr>reduction := ''mean''\<rparr>) i t =
      Inr (scalar (sum_list (data L) / real (length (data L))))"
  using assms
  by (auto simp: compute_loss_def reduce_def split: if_splits list.splits sum.splits)





lemma init_reduction:
  "init ib oh g w r = Inr self \<Longrightarrow> reduction self \<in> {''none'', ''mean'', ''sum''}"
proof -
  assume a: "init ib oh g w r = Inr self"
  have v: "LossReduction_value m \<in> {''none'', ''mean'', ''sum''}" for m
    by (cases m) simp_all
  from a obtain m where "LossReduction_call r = Inr m" "reduction self = LossReduction_value m"
    by (auto simp: init_def split: sum.splits)
  with v [of m] show ?thesis by simp
qed

lemma reduce_supported:
  "r \<in> {''none'', ''mean'', ''sum''} \<Longrightarrow> reduce r L \<noteq> Inl (UnsupportedReductionError u)"
  by (auto simp: reduce_def)

lemma compute_loss_unsupported:
  "compute_loss self i t = Inl (UnsupportedReductionError u)
    \<Longrightarrow> \<exists>L. reduce (reduction self) L = Inl (UnsupportedReductionError u)"
  by (auto simp: compute_loss_def reshape_bn_def apply_weight_def class_weight_of_def Let_def
      split: if_splits list.splits sum.splits option.splits weight_arg.splits)

lemma preprocess_not_unsupported:
  "preprocess one_hot self input target \<noteq> (ws, Inl (UnsupportedReductionError u))"
  by (auto simp: preprocess_def shape_at_def to_onehot_step_def include_background_step_def
      drop_channel0_def Let_def
      split: if_splits list.splits sum.splits option.splits prod.splits)

section \<open>The examples, evaluated\<close>

lemma modulation_2_0: "modulation 2 0 t = 1 / 4"
proof -
  have "logsigmoid 0 = ln (1 / 2)" by (simp add: logsigmoid_def sigmoid_def)
  then have "modulation 2 0 t = exp (ln (1 / 2) * 2)" by (simp add: modulation_def)
  also have "\<dots> = exp (ln (1 / 2) + ln (1 / 2))" by (simp only: mult_2_right)
  also have "\<dots> = exp (ln (1 / 2)) * exp (ln (1 / 2))" by (rule exp_add)
  also have "exp (ln (1 / 2)) = (1 / 2 :: real)" by (rule exp_ln) simp
  finally show ?thesis by simp
qed

lemma bce_0: "bce_with_logits 0 t = ln 2"
  by (simp add: bce_with_logits_def clamp_min_def)

lemma example2_preprocess:
  "include_background self \<Longrightarrow> \<not> to_onehot_y self \<Longrightarrow>
   preprocess no_one_hot self example_input2 example_target2 =
     ([], Inr (example_input2, example_target2))"
  by (simp add: preprocess_def shape_at_def to_onehot_step_def include_background_step_def
      example_input2_def)

lemma example2_well_formed: "well_formed example_input2" "well_formed example_target2"
  by (simp_all add: well_formed_def example_input2_def example_target2_def)

lemma example2_shapes: "shape example_target2 = shape example_input2"
  "shape example_input2 = [1, 2, 1]"
  by (simp_all add: example_input2_def example_target2_def)

lemma upt_2: "[0..<2] = [0, Suc 0]"
  by (simp add: upt_rec)

lemma example2_rows:
  "voxel_row (Suc 0) example_input2 0 = [0]"
  "voxel_row (Suc 0) example_input2 (Suc 0) = [0]"
  "voxel_row (Suc 0) example_target2 0 = [1]"
  "voxel_row (Suc 0) example_target2 (Suc 0) = [0]"
  by (simp_all add: voxel_row_def example_input2_def example_target2_def)

lemma example2_loss_bn:
  "gamma self = 2 \<Longrightarrow>
   loss_bn self 1 2 (prod_list [1]) example_input2 example_target2 =
     [ln 2 * class_weight_at (weight self) 0 / 4, ln 2 * class_weight_at (weight self) 1 / 4]"
  by (simp add: loss_bn_def upt_2 example2_rows channel_loss_def mean_list_def modulation_2_0
      bce_0)

lemma example2_forward:
  assumes "include_background self" and "\<not> to_onehot_y self" and "gamma self = 2"
    and "weight_valid (weight self) 2"
  shows "forward no_one_hot self example_input2 example_target2 =
    ([], reduce (reduction self)
           \<lparr>shape = [1, 2],
            data = [ln 2 * class_weight_at (weight self) 0 / 4,
                    ln 2 * class_weight_at (weight self) 1 / 4]\<rparr>)"
  using forward_scored [OF example2_preprocess [OF assms(1,2)]]
    compute_loss_scored [OF example2_shapes example2_well_formed _ assms(4)]
    example2_loss_bn [OF assms(3)]
  by simp

lemma example_pred_preprocess:
  "preprocess no_one_hot example_loss example_pred example_grnd =
     ([], Inr (example_pred, example_grnd))"
  by (simp add: preprocess_def shape_at_def to_onehot_step_def include_background_step_def
      example_loss_def example_pred_def)



section \<open>The claims\<close>

text \<open>
  C1: for every logit \<open>i\<close> and label \<open>t\<close> (in particular for \<open>t\<close> in \<open>[0,1]\<close>), the cross
  entropy term of lines 122-123 is
  \<open>i - i*t + max_val + log(exp(-max_val) + exp(-i - max_val))\<close> with
  \<open>max_val = max(-i, 0)\<close>, and it equals the reference definition
  \<open>-[t*log(sigmoid(i)) + (1-t)*log(1-sigmoid(i))]\<close>.
\<close>

theorem C1_bce_with_logits_reference:
  "bce_with_logits i t =
     i - i * t + max (- i) 0 + ln (exp (- max (- i) 0) + exp (- i - max (- i) 0))
   \<and> bce_with_logits i t = - (t * ln (sigmoid i) + (1 - t) * ln (1 - sigmoid i))"
proof
  show "bce_with_logits i t =
     i - i * t + max (- i) 0 + ln (exp (- max (- i) 0) + exp (- i - max (- i) 0))"
    by (simp add: bce_with_logits_def clamp_min_def Let_def)
  show "bce_with_logits i t = - (t * ln (sigmoid i) + (1 - t) * ln (1 - sigmoid i))"
    using bce_stable_eq_reference [of i t] by (simp add: bce_reference_def)
qed



text \<open>
  C3: for a fixed prediction, target and configuration, if the call with the reduction
  \<open>none\<close> returns the tensor \<open>L\<close>, then the call with \<open>sum\<close> returns the scalar sum of the
  elements of \<open>L\<close>, and the call with \<open>mean\<close> returns that sum divided by the number of
  elements of \<open>L\<close>.
\<close>

theorem C3_sum_and_mean_of_none:
  assumes "snd (forward one_hot (self\<lparr>reduction := ''none''\<rparr>) input target) = Inr L"
  shows "snd (forward one_hot (self\<lparr>reduction := ''sum''\<rparr>) input target) =
      Inr (scalar (sum_list (data L)))
    \<and> snd (forward one_hot (self\<lparr>reduction := ''mean''\<rparr>) input target) =
      Inr (scalar (sum_list (data L) / real (length (data L))))"
proof -
  let ?none = "self\<lparr>reduction := ''none''\<rparr>"
  let ?sum = "self\<lparr>reduction := ''sum''\<rparr>"
  let ?mean = "self\<lparr>reduction := ''mean''\<rparr>"
  obtain ws r where p: "preprocess one_hot ?none input target = (ws, r)"
    by (cases "preprocess one_hot ?none input target")
  have ps: "preprocess one_hot ?sum input target = (ws, r)"
    using p preprocess_cong [of ?sum ?none one_hot input target] by simp
  have pm: "preprocess one_hot ?mean input target = (ws, r)"
    using p preprocess_cong [of ?mean ?none one_hot input target] by simp
  show ?thesis
  proof (cases r)
    case (Inl e)
    with p assms show ?thesis by (simp add: forward_def)
  next
    case (Inr it)
    obtain i t where it: "it = (i, t)" by (cases it)
    with Inr p assms have "compute_loss ?none i t = Inr L" by (simp add: forward_def)
    from compute_loss_reductions [OF this] Inr it ps pm show ?thesis
      by (simp add: forward_def)
  qed
qed

theorem C3_sum_and_mean_of_none_witness:
  "snd (forward no_one_hot (example_loss\<lparr>reduction := ''none''\<rparr>) example_input2 example_target2) =
      Inr \<lparr>shape = [1, 2], data = [ln 2 / 4, ln 2 / 4]\<rparr>
    \<and> snd (forward no_one_hot (example_loss\<lparr>reduction := ''sum''\<rparr>) example_input2 example_target2) =
      Inr (scalar (ln 2 / 2))
    \<and> snd (forward no_one_hot (example_loss\<lparr>reduction := ''mean''\<rparr>) example_input2 example_target2) =
      Inr (scalar (ln 2 / 4))"
proof -
  have n: "snd (forward no_one_hot (example_loss\<lparr>reduction := ''none''\<rparr>)
      example_input2 example_target2) = Inr \<lparr>shape = [1, 2], data = [ln 2 / 4, ln 2 / 4]\<rparr>"
    using example2_forward [of "example_loss\<lparr>reduction := ''none''\<rparr>"]
    by (simp add: example_loss_def weight_valid_def class_weight_at_def reduce_def)
  from C3_sum_and_mean_of_none [OF n] n show ?thesis by simp
qed

text \<open>
  C4: when the preprocessing (the one-hot expansion of the target and the removal of
  channel 0, where configured) returns an input and a target of different shapes,
  \<^verbatim>\<open>forward\<close> raises the shape mismatch error, which carries both shapes, and returns no
  loss.
\<close>

theorem C4_shape_mismatch:
  assumes "preprocess one_hot self input target = (ws, Inr (i, t))"
    and "shape t \<noteq> shape i"
  shows "forward one_hot self input target =
      (ws, Inl (ShapeMismatchError (shape t) (shape i)))"
  using assms by (simp add: forward_def compute_loss_def)

theorem C4_shape_mismatch_witness:
  "preprocess no_one_hot example_loss example_pred example_grnd =
      ([], Inr (example_pred, example_grnd))
    \<and> shape example_grnd \<noteq> shape example_pred
    \<and> forward no_one_hot example_loss example_pred example_grnd =
      ([], Inl (ShapeMismatchError [3, 1] [3, 2]))"
proof -
  have d: "shape example_grnd \<noteq> shape example_pred"
    by (simp add: example_pred_def example_grnd_def)
  from C4_shape_mismatch [OF example_pred_preprocess d] example_pred_preprocess d
  show ?thesis by (simp add: example_pred_def example_grnd_def)
qed



text \<open>
  C6: on an input with one channel, neither \<^verbatim>\<open>to_onehot_y=True\<close> nor
  \<^verbatim>\<open>include_background=False\<close> fails: the preprocessing returns the input and the target
  as they are, with one warning for each of the two flags; so the result of \<^verbatim>\<open>forward\<close>
  is the result with the flag at its default, and only the warning is added.
\<close>

theorem C6_single_channel_flags:
  assumes "shape_at input 1 = Inr 1"
  shows "preprocess one_hot self input target =
      ((if to_onehot_y self then [warn_to_onehot_y] else [])
         @ (if \<not> include_background self then [warn_include_background] else []),
       Inr (input, target))
    \<and> forward one_hot (self\<lparr>to_onehot_y := True\<rparr>) input target =
      ([warn_to_onehot_y] @ fst (forward one_hot (self\<lparr>to_onehot_y := False\<rparr>) input target),
       snd (forward one_hot (self\<lparr>to_onehot_y := False\<rparr>) input target))
    \<and> forward one_hot (self\<lparr>include_background := False\<rparr>) input target =
      (fst (forward one_hot (self\<lparr>include_background := True\<rparr>) input target)
         @ [warn_include_background],
       snd (forward one_hot (self\<lparr>include_background := True\<rparr>) input target))"
proof -
  have p: "preprocess one_hot s input target =
      ((if to_onehot_y s then [warn_to_onehot_y] else [])
         @ (if \<not> include_background s then [warn_include_background] else []),
       Inr (input, target))" for s
    using assms by (simp add: preprocess_def to_onehot_step_def include_background_step_def)
  have c: "compute_loss (s\<lparr>to_onehot_y := x\<rparr>) input target = compute_loss s input target"
    "compute_loss (s\<lparr>include_background := x\<rparr>) input target = compute_loss s input target"
    for s x
    by (simp_all add: compute_loss_def split: list.splits sum.splits)
  show ?thesis by (simp add: p forward_def c)
qed

theorem C6_single_channel_flags_witness:
  "shape_at example_input 1 = Inr 1
    \<and> preprocess no_one_hot (example_loss\<lparr>to_onehot_y := True, include_background := False\<rparr>)
        example_input example_target =
      ([warn_to_onehot_y, warn_include_background], Inr (example_input, example_target))
    \<and> forward no_one_hot (example_loss\<lparr>to_onehot_y := True\<rparr>) example_input example_target =
      ([warn_to_onehot_y] @ fst (forward no_one_hot example_loss example_input example_target),
       snd (forward no_one_hot example_loss example_input example_target))
    \<and> forward no_one_hot (example_loss\<lparr>include_background := False\<rparr>)
        example_input example_target =
      (fst (forward no_one_hot example_loss example_input example_target)
         @ [warn_include_background],
       snd (forward no_one_hot example_loss example_input example_target))"
proof -
  have c: "shape_at example_input 1 = Inr 1"
    by (simp add: shape_at_def example_input_def)
  have f: "example_loss\<lparr>to_onehot_y := False\<rparr> = example_loss"
    "example_loss\<lparr>include_background := True\<rparr> = example_loss"
    by (simp_all add: example_loss_def)
  from C6_single_channel_flags [OF c,
      of no_one_hot "example_loss\<lparr>to_onehot_y := True, include_background := False\<rparr>"
        example_target]
    C6_single_channel_flags [OF c, of no_one_hot example_loss example_target] c f
  show ?thesis by simp
qed

text \<open>
  C7: with \<open>gamma = 0\<close> the modulating factor is 1, and on every valid input (as in C2)
  the loss is the reduction of the \<open>[b, n]\<close> tensor of the means over the voxels of the
  cross entropy with logits, each multiplied by the weight of its class.
\<close>

theorem C7_gamma_zero:
  assumes "preprocess one_hot self input target = (ws, Inr (i, t))"
    and "shape t = shape i" and "shape i = b # n # sp"
    and "well_formed i" and "well_formed t"
    and "0 < b * n" and "0 < prod_list sp"
    and "weight_valid (weight self) n"
    and "gamma self = 0"
  shows "modulation (gamma self) x y = 1
    \<and> forward one_hot self input target =
      (ws, reduce (reduction self)
        \<lparr>shape = [b, n],
         data = map (\<lambda>k. mean_list
                   (map2 (\<lambda>x y. bce_with_logits x y * class_weight_at (weight self) (k mod n))
                      (voxel_row (prod_list sp) i k) (voxel_row (prod_list sp) t k)))
                 [0..<b * n]\<rparr>)"
proof -
  have m: "modulation (gamma self) x y = 1" for x y
    using assms(9) by (simp add: modulation_def)
  have "loss_bn self b n (prod_list sp) i t =
      map (\<lambda>k. mean_list
                   (map2 (\<lambda>x y. bce_with_logits x y * class_weight_at (weight self) (k mod n))
                      (voxel_row (prod_list sp) i k) (voxel_row (prod_list sp) t k)))
                 [0..<b * n]"
    by (simp add: loss_bn_def channel_loss_def m)
  then show ?thesis
    using m forward_scored [OF assms(1)]
      compute_loss_scored [OF assms(2) assms(3) assms(4) assms(5) assms(6) assms(8)]
    by simp
qed

theorem C7_gamma_zero_witness:
  "gamma (example_loss\<lparr>gamma := 0, weight := Some (Scalar 3)\<rparr>) = 0
    \<and> modulation 0 5 1 = 1
    \<and> forward no_one_hot (example_loss\<lparr>gamma := 0, weight := Some (Scalar 3)\<rparr>)
        example_input2 example_target2 =
      ([], Inr (scalar (3 * ln 2)))"
proof -
  let ?self = "example_loss\<lparr>gamma := 0, weight := Some (Scalar 3)\<rparr>"
  have p: "preprocess no_one_hot ?self example_input2 example_target2 =
      ([], Inr (example_input2, example_target2))"
    by (rule example2_preprocess) (simp_all add: example_loss_def)
  have w: "weight_valid (weight ?self) 2" by (simp add: weight_valid_def)
  have g: "gamma ?self = 0" by simp
  from C7_gamma_zero [OF p example2_shapes example2_well_formed _ _ w g, of 5 1]
  show ?thesis
    by (simp add: upt_2 example2_rows mean_list_def bce_0 class_weight_at_def reduce_def
        example_loss_def)
qed

text \<open>
  C9: a loss built by the constructor has one of the reductions "none", "mean" and
  "sum", so \<^verbatim>\<open>forward\<close> never raises the unsupported reduction error on it.
\<close>

theorem C9_reduction_validated:
  assumes "init ib oh g w r = Inr self"
  shows "reduction self \<in> {''none'', ''mean'', ''sum''}
    \<and> snd (forward one_hot self input target) \<noteq> Inl (UnsupportedReductionError u)"
proof -
  from init_reduction [OF assms] have r: "reduction self \<in> {''none'', ''mean'', ''sum''}" .
  have "snd (forward one_hot self input target) \<noteq> Inl (UnsupportedReductionError u)"
  proof
    assume a: "snd (forward one_hot self input target) = Inl (UnsupportedReductionError u)"
    obtain ws res where p: "preprocess one_hot self input target = (ws, res)"
      by (cases "preprocess one_hot self input target")
    show False
    proof (cases res)
      case (Inl e)
      with p a have "e = UnsupportedReductionError u" by (simp add: forward_def)
      with Inl p preprocess_not_unsupported [of one_hot self input target ws u]
      show False by simp
    next
      case (Inr it)
      obtain i t where "it = (i, t)" by (cases it)
      with Inr p a have "compute_loss self i t = Inl (UnsupportedReductionError u)"
        by (simp add: forward_def)
      from compute_loss_unsupported [OF this] reduce_supported [OF r] show False by blast
    qed
  qed
  with r show ?thesis by simp
qed

theorem C9_reduction_validated_witness:
  "init True False 2 None (Member R_MEAN) = Inr example_loss
    \<and> init True False 2 None (Str ''mean'') = Inr example_loss
    \<and> reduction example_loss \<in> {''none'', ''mean'', ''sum''}
    \<and> snd (forward no_one_hot example_loss example_input2 example_target2) \<noteq>
        Inl (UnsupportedReductionError ''mean'')"
proof -
  have i: "init True False 2 None (Member R_MEAN) = Inr example_loss"
    by (simp add: init_def example_loss_def)
  have j: "init True False 2 None (Str ''mean'') = Inr example_loss"
    by (simp add: init_def example_loss_def)
  from C9_reduction_validated [OF i, of no_one_hot example_input2 example_target2 "''mean''"] i j
  show ?thesis by simp
qed



end
